theory Spec2Isabelle
  imports Main "HOL-Library.Sublist"
begin

section \<open>Automatic provider/model resolution of the chat component\<close>

text \<open>
  The development embeds the two functions of \<^verbatim>\<open>app/components/chat/Chat.client.tsx\<close>
  that decide which provider and model serve a message in automatic mode:
  \<^verbatim>\<open>chooseProviderAndModel\<close> (the local heuristic) and \<^verbatim>\<open>resolveAutoProviderModel\<close>
  (the delegation attempt around it).

  Strings are lists of \<^typ>\<open>char\<close>; a \<^typ>\<open>char\<close> stands for one code unit of the
  source string with a value below 256, so \<^const>\<open>length\<close> is the source's
  \<^verbatim>\<open>.length\<close> on such strings.
\<close>

subsection \<open>Regular expressions\<close>

text \<open>
  The syntax of the pattern literals the source uses: a literal character sequence, a
  bracketed class given by its ranges, concatenation, \<^verbatim>\<open>|\<close>, \<^verbatim>\<open>?\<close> and \<^verbatim>\<open>+\<close>.
\<close>

datatype regex =
    Lit string
  | Cls "(char \<times> char) list"
  | Cat regex regex
  | Alt regex regex
  | Opt regex
  | Plus1 regex

definition inClass :: "(char \<times> char) list \<Rightarrow> char \<Rightarrow> bool" where
  "inClass rs c =
     list_ex (\<lambda>(lo, hi). (of_char lo :: nat) \<le> of_char c \<and> (of_char c :: nat) \<le> of_char hi) rs"

text \<open>Whether the pattern matches the empty string, and its derivative by one character.\<close>

primrec nullable :: "regex \<Rightarrow> bool" where
  "nullable (Lit s) = (s = [])"
| "nullable (Cls rs) = False"
| "nullable (Cat r1 r2) = (nullable r1 \<and> nullable r2)"
| "nullable (Alt r1 r2) = (nullable r1 \<or> nullable r2)"
| "nullable (Opt r) = True"
| "nullable (Plus1 r) = nullable r"

primrec deriv :: "char \<Rightarrow> regex \<Rightarrow> regex" where
  "deriv c (Lit s) = (case s of [] \<Rightarrow> Cls [] | x # xs \<Rightarrow> if c = x then Lit xs else Cls [])"
| "deriv c (Cls rs) = (if inClass rs c then Lit [] else Cls [])"
| "deriv c (Cat r1 r2) =
     (if nullable r1 then Alt (Cat (deriv c r1) r2) (deriv c r2) else Cat (deriv c r1) r2)"
| "deriv c (Alt r1 r2) = Alt (deriv c r1) (deriv c r2)"
| "deriv c (Opt r) = deriv c r"
| "deriv c (Plus1 r) = Cat (deriv c r) (Opt (Plus1 r))"

text \<open>\<open>matchesPrefix r s\<close>: the pattern matches at the start of \<open>s\<close>.\<close>

fun matchesPrefix :: "regex \<Rightarrow> string \<Rightarrow> bool" where
  "matchesPrefix r [] = nullable r"
| "matchesPrefix r (c # cs) = (nullable r \<or> matchesPrefix (deriv c r) cs)"

text \<open>
  \<^verbatim>\<open>RegExp.prototype.test\<close> for a pattern without flags and anchors: the start positions
  are tried from the left, and the answer is whether the pattern matches at one of them.
\<close>

fun regex_test :: "regex \<Rightarrow> string \<Rightarrow> bool" where
  "regex_test r [] = matchesPrefix r []"
| "regex_test r (c # cs) = (matchesPrefix r (c # cs) \<or> regex_test r cs)"

text \<open>
  The language of a pattern, the reference the matcher is checked against: the set of
  character sequences the pattern matches as a whole.
\<close>

definition conc :: "string set \<Rightarrow> string set \<Rightarrow> string set" where
  "conc A B = {u @ v | u v. u \<in> A \<and> v \<in> B}"

inductive_set plusL :: "string set \<Rightarrow> string set" for A :: "string set" where
  one: "w \<in> A \<Longrightarrow> w \<in> plusL A"
| more: "u \<in> A \<Longrightarrow> v \<in> plusL A \<Longrightarrow> u @ v \<in> plusL A"

primrec lang :: "regex \<Rightarrow> string set" where
  "lang (Lit s) = {s}"
| "lang (Cls rs) = {[c] | c. inClass rs c}"
| "lang (Cat r1 r2) = conc (lang r1) (lang r2)"
| "lang (Alt r1 r2) = lang r1 \<union> lang r2"
| "lang (Opt r) = insert [] (lang r)"
| "lang (Plus1 r) = plusL (lang r)"

subsection \<open>Strings\<close>

text \<open>
  \<^verbatim>\<open>String.prototype.toLowerCase\<close> on code units below 256: the letters A to Z and the
  upper-case letters of the Latin-1 supplement (U+00C0 to U+00DE without the
  multiplication sign U+00D7) move up by 32, every other code unit stays.
\<close>

definition lowerUnit :: "char \<Rightarrow> char" where
  "lowerUnit c =
     (let n = (of_char c :: nat)
      in if (65 \<le> n \<and> n \<le> 90) \<or> (192 \<le> n \<and> n \<le> 222 \<and> n \<noteq> 215)
         then char_of (n + 32) else c)"

definition toLowerCase :: "string \<Rightarrow> string" where
  "toLowerCase s = map lowerUnit s"

subsection \<open>Data model\<close>

text \<open>
  Modelled from the spec: the declaration of \<^verbatim>\<open>ProviderInfo\<close> (module \<^verbatim>\<open>~/types/model\<close>)
  is not among the sources. The resolver reads the field \<^verbatim>\<open>name\<close> only; the spec calls
  the type opaque beyond its name. The remaining fields are kept as one opaque value,
  which is absent in an object literal that carries a name only.
\<close>

record 'a ProviderInfo =
  name :: string
  others :: "'a option"

text \<open>The argument object of both functions; \<^verbatim>\<open>preferred\<close> is optional, as are its fields.\<close>

record 'a Opts =
  message :: string
  hasImages :: bool
  activeProviders :: "'a ProviderInfo list"
  preferred :: "('a ProviderInfo option \<times> string option) option"

text \<open>The returned object; \<^verbatim>\<open>model: undefined\<close> is \<open>None\<close>.\<close>

record 'a Resolution =
  provider :: "'a ProviderInfo"
  model :: "string option"

subsection \<open>The local heuristic\<close>

text \<open>
  The pattern literal of \<^verbatim>\<open>isCodey\<close>, alternative by alternative, in the source's order.
  The last alternative is \<^verbatim>\<open><\/?[\w-]+>\<close>; \<^verbatim>\<open>\w\<close> is the class \<^verbatim>\<open>[A-Za-z0-9_]\<close>.
\<close>

definition wordOrDash :: "(char \<times> char) list" where
  "wordOrDash =
     [(CHR ''A'', CHR ''Z''), (CHR ''a'', CHR ''z''), (CHR ''0'', CHR ''9''),
      (CHR ''_'', CHR ''_''), (CHR ''-'', CHR ''-'')]"

definition tagPattern :: regex where
  "tagPattern = Cat (Lit ''<'') (Cat (Opt (Lit ''/'')) (Cat (Plus1 (Cls wordOrDash)) (Lit ''>'')))"

definition codeyPattern :: regex where
  "codeyPattern =
     Alt (Lit ''```'') (Alt (Lit ''function'') (Alt (Lit ''class'') (Alt (Lit ''<div'')
    (Alt (Lit ''const '') (Alt (Lit ''let '') (Alt (Lit ''var '') (Alt (Lit ''import '')
    (Alt (Lit ''def '') (Alt (Lit ''public '') (Alt (Lit ''private '') (Alt (Lit '';'')
    (Alt (Lit ''{'') (Alt (Lit ''('') tagPattern)))))))))))))"

definition isCodey :: "string \<Rightarrow> bool" where
  "isCodey msg = regex_test codeyPattern msg"

definition short :: "string \<Rightarrow> bool" where
  "short msg = (length msg \<le> 1200)"

text \<open>\<^verbatim>\<open>byName\<close> closes over \<^verbatim>\<open>activeProviders\<close>; here the list is its first argument.\<close>

definition byName :: "'a ProviderInfo list \<Rightarrow> string \<Rightarrow> 'a ProviderInfo option" where
  "byName aps nm = find (\<lambda>p. toLowerCase (name p) = toLowerCase nm) aps"

text \<open>The comparison \<^verbatim>\<open>byName\<close> makes: equal names after lower-casing both.\<close>

abbreviation named :: "string \<Rightarrow> 'a ProviderInfo \<Rightarrow> bool" where
  "named nm p \<equiv> toLowerCase (name p) = toLowerCase nm"

text \<open>The object literal \<^verbatim>\<open>{ name: 'OpenRouter' } as ProviderInfo\<close> of the last branch.\<close>

definition syntheticProvider :: "'a ProviderInfo" where
  "syntheticProvider = \<lparr>name = ''OpenRouter'', others = None\<rparr>"

definition chooseProviderAndModel :: "'a Opts \<Rightarrow> 'a Resolution" where
  "chooseProviderAndModel opts =
     (let msg = message opts;
          img = hasImages opts;
          aps = activeProviders opts;
          codey = isCodey msg;
          sh = short msg;
          lmstudio = byName aps ''LMStudio'';
          ollama = byName aps ''Ollama'';
          openrouter = byName aps ''OpenRouter'';
          openai = byName aps ''OpenAI''
      in if lmstudio \<noteq> None \<and> sh \<and> \<not> img then
           \<lparr>provider = the lmstudio,
            model = Some (if codey then ''qwen2.5-coder-7b-instruct''
                          else ''meta-llama-3.1-8b-instruct'')\<rparr>
         else if ollama \<noteq> None \<and> sh \<and> \<not> img then
           \<lparr>provider = the ollama,
            model = Some (if codey then ''deepseek-coder:6.7b'' else ''llama3.1:8b'')\<rparr>
         else if openrouter \<noteq> None then
           (if codey \<and> sh \<and> \<not> img then
              \<lparr>provider = the openrouter, model = Some ''deepseek/deepseek-coder''\<rparr>
            else if img \<or> \<not> sh then
              \<lparr>provider = the openrouter, model = Some ''openai/gpt-4o-mini''\<rparr>
            else
              \<lparr>provider = the openrouter, model = Some ''meta-llama/llama-3.1-8b-instruct''\<rparr>)
         else if openai \<noteq> None then
           (if img \<or> \<not> sh then \<lparr>provider = the openai, model = Some ''gpt-4o-mini''\<rparr>
            else \<lparr>provider = the openai, model = Some ''gpt-4o-mini''\<rparr>)
         else
           (case aps of
              first # _ \<Rightarrow> \<lparr>provider = first, model = None\<rparr>
            | [] \<Rightarrow> \<lparr>provider = syntheticProvider,
                     model = Some ''meta-llama/llama-3.1-8b-instruct''\<rparr>))"

subsection \<open>The delegation attempt\<close>

text \<open>
  The outcome of awaiting a promise, the outcome of a call, and what the loaded module
  holds under the name \<^verbatim>\<open>resolveAutoProviderModel\<close>: nothing, a value that is not a
  function, or a function from the argument object to a promise.
\<close>

datatype 'r promise = Fulfilled 'r | Rejected | Pending

datatype 'r call = Throws | Returns 'r

datatype ('o, 'r) export = Absent | NotCallable | Callable "'o \<Rightarrow> 'r promise call"

text \<open>
  \<open>imported\<close> is the settlement of the dynamic \<^verbatim>\<open>import(...)\<close>. Both awaits sit inside the
  \<^verbatim>\<open>try\<close> block, so a rejection and a synchronous throw reach the empty \<^verbatim>\<open>catch\<close> alike,
  after which the local heuristic runs. A promise that never settles leaves the result
  pending.
\<close>

definition resolveAutoProviderModel ::
  "('a Opts, 'a Resolution) export promise \<Rightarrow> 'a Opts \<Rightarrow> 'a Resolution promise" where
  "resolveAutoProviderModel imported opts =
     (case imported of
        Pending \<Rightarrow> Pending
      | Rejected \<Rightarrow> Fulfilled (chooseProviderAndModel opts)
      | Fulfilled m \<Rightarrow>
          (case m of
             Callable f \<Rightarrow>
               (case f opts of
                  Throws \<Rightarrow> Fulfilled (chooseProviderAndModel opts)
                | Returns Pending \<Rightarrow> Pending
                | Returns Rejected \<Rightarrow> Fulfilled (chooseProviderAndModel opts)
                | Returns (Fulfilled r) \<Rightarrow> Fulfilled r)
           | _ \<Rightarrow> Fulfilled (chooseProviderAndModel opts)))"

section \<open>Properties\<close>

subsection \<open>The matcher decides the language\<close>

lemma inClass_Nil: "\<not> inClass [] c"
  by (simp add: inClass_def)

lemma Nil_in_conc: "[] \<in> conc A B \<longleftrightarrow> [] \<in> A \<and> [] \<in> B"
  by (auto simp: conc_def)

lemma Cons_in_conc:
  "c # w \<in> conc A B \<longleftrightarrow>
     ([] \<in> A \<and> c # w \<in> B) \<or> (\<exists>u v. w = u @ v \<and> c # u \<in> A \<and> v \<in> B)"
  by (auto simp: conc_def Cons_eq_append_conv)

lemma Nil_in_plusL_aux: "w \<in> plusL A \<Longrightarrow> w = [] \<Longrightarrow> [] \<in> A"
  by (induction rule: plusL.induct) auto

lemma Nil_in_plusL: "[] \<in> plusL A \<longleftrightarrow> [] \<in> A"
  using Nil_in_plusL_aux plusL.one by blast

lemma Cons_in_plusL_D:
  "x \<in> plusL A \<Longrightarrow> x = c # w \<Longrightarrow>
     \<exists>u v. w = u @ v \<and> c # u \<in> A \<and> (v = [] \<or> v \<in> plusL A)"
proof (induction arbitrary: w rule: plusL.induct)
  case (one x)
  then show ?case by auto
next
  case (more u v)
  show ?case
  proof (cases u)
    case Nil
    with more show ?thesis by simp
  next
    case (Cons a u')
    with more.prems have "a = c" "w = u' @ v" by simp_all
    with more.hyps Cons show ?thesis by blast
  qed
qed

lemma Cons_in_plusL:
  "c # w \<in> plusL A \<longleftrightarrow> (\<exists>u v. w = u @ v \<and> c # u \<in> A \<and> (v = [] \<or> v \<in> plusL A))"
proof
  assume "c # w \<in> plusL A"
  then show "\<exists>u v. w = u @ v \<and> c # u \<in> A \<and> (v = [] \<or> v \<in> plusL A)"
    by (rule Cons_in_plusL_D) simp
next
  assume "\<exists>u v. w = u @ v \<and> c # u \<in> A \<and> (v = [] \<or> v \<in> plusL A)"
  then obtain u v where w: "w = u @ v" and u: "c # u \<in> A" and v: "v = [] \<or> v \<in> plusL A"
    by blast
  from v show "c # w \<in> plusL A"
  proof
    assume "v = []"
    with w u show ?thesis by (simp add: plusL.one)
  next
    assume "v \<in> plusL A"
    with u have "(c # u) @ v \<in> plusL A" by (rule plusL.more)
    with w show ?thesis by simp
  qed
qed

lemma nullable_iff: "nullable r \<longleftrightarrow> [] \<in> lang r"
  by (induction r) (auto simp: Nil_in_conc Nil_in_plusL)

lemma deriv_iff: "w \<in> lang (deriv c r) \<longleftrightarrow> c # w \<in> lang r"
proof (induction r arbitrary: w)
  case (Lit s)
  then show ?case by (cases s) (auto simp: inClass_Nil)
next
  case (Cls rs)
  then show ?case by (auto simp: inClass_Nil)
next
  case (Cat r1 r2)
  then show ?case
    by (auto simp: Cons_in_conc nullable_iff) (auto simp: conc_def)
next
  case (Alt r1 r2)
  then show ?case by simp
next
  case (Opt r)
  then show ?case by simp
next
  case (Plus1 r)
  then show ?case
    by (auto simp: Cons_in_plusL conc_def)
qed

lemma matchesPrefix_iff: "matchesPrefix r s \<longleftrightarrow> (\<exists>u v. s = u @ v \<and> u \<in> lang r)"
proof (induction s arbitrary: r)
  case Nil
  then show ?case by (simp add: nullable_iff)
next
  case (Cons c cs)
  show ?case
  proof
    assume "matchesPrefix r (c # cs)"
    then consider "nullable r" | "matchesPrefix (deriv c r) cs" by auto
    then show "\<exists>u v. c # cs = u @ v \<and> u \<in> lang r"
    proof cases
      case 1
      then have "c # cs = [] @ (c # cs) \<and> [] \<in> lang r" by (simp add: nullable_iff)
      then show ?thesis by blast
    next
      case 2
      then obtain u v where "cs = u @ v" "u \<in> lang (deriv c r)" using Cons.IH by blast
      then have "c # cs = (c # u) @ v \<and> c # u \<in> lang r" by (simp add: deriv_iff)
      then show ?thesis by blast
    qed
  next
    assume "\<exists>u v. c # cs = u @ v \<and> u \<in> lang r"
    then obtain u v where uv: "c # cs = u @ v" "u \<in> lang r" by blast
    show "matchesPrefix r (c # cs)"
    proof (cases u)
      case Nil
      with uv(2) show ?thesis by (simp add: nullable_iff)
    next
      case (Cons a u')
      with uv have "cs = u' @ v" "u' \<in> lang (deriv c r)" by (simp_all add: deriv_iff)
      then have "matchesPrefix (deriv c r) cs" using Cons.IH by blast
      then show ?thesis by simp
    qed
  qed
qed

lemma regex_test_iff: "regex_test r s \<longleftrightarrow> (\<exists>u \<in> lang r. sublist u s)"
proof (induction s)
  case Nil
  then show ?case by (auto simp: nullable_iff)
next
  case (Cons c cs)
  have "(\<exists>u \<in> lang r. sublist u (c # cs)) \<longleftrightarrow>
        (\<exists>u \<in> lang r. prefix u (c # cs)) \<or> (\<exists>u \<in> lang r. sublist u cs)"
    by (auto simp: sublist_Cons_right)
  moreover have "matchesPrefix r (c # cs) \<longleftrightarrow> (\<exists>u \<in> lang r. prefix u (c # cs))"
    unfolding matchesPrefix_iff prefix_def by blast
  ultimately show ?case using Cons.IH by simp
qed

subsection \<open>Provider lookup\<close>

lemma byName_Nil: "byName [] nm = None"
  by (simp add: byName_def)

lemma byName_None_iff:
  "byName aps nm = None \<longleftrightarrow> (\<forall>p\<in>set aps. \<not> named nm p)"
  by (auto simp: byName_def find_None_iff)

lemma byName_Some_D:
  "byName aps nm = Some p \<Longrightarrow> p \<in> set aps \<and> named nm p"
  by (auto simp: byName_def find_Some_iff)

lemma byName_active:
  assumes "\<exists>p\<in>set aps. named nm p"
  obtains q where "byName aps nm = Some q" "q \<in> set aps" "named nm q"
proof -
  from assms have "byName aps nm \<noteq> None" by (simp add: byName_None_iff)
  then obtain q where "byName aps nm = Some q" by blast
  with byName_Some_D [of aps nm q] that show thesis by blast
qed

subsection \<open>Evaluation on sample strings\<close>

lemmas lower_eval = toLowerCase_def lowerUnit_def char_of_eq_iff

lemmas codey_eval = isCodey_def codeyPattern_def tagPattern_def wordOrDash_def inClass_def

lemma lower_names:
  "toLowerCase ''LMStudio'' = ''lmstudio''"
  "toLowerCase ''Ollama'' = ''ollama''"
  "toLowerCase ''OpenRouter'' = ''openrouter''"
  "toLowerCase ''OpenAI'' = ''openai''"
  "toLowerCase ''lmstudio'' = ''lmstudio''"
  "toLowerCase ''OLLAMA'' = ''ollama''"
  "toLowerCase ''openRouter'' = ''openrouter''"
  "toLowerCase ''openai'' = ''openai''"
  "toLowerCase ''Anthropic'' = ''anthropic''"
  by (simp_all add: lower_eval)

lemma codey_samples:
  "\<not> isCodey ''hello''"
  "isCodey ''```x```''"
  by (simp_all add: codey_eval)

subsection \<open>The code-likeness classifier\<close>

lemma plusL_class_sub:
  "w \<in> plusL {[c] | c. P c} \<Longrightarrow> w \<noteq> [] \<and> (\<forall>c\<in>set w. P c)"
  by (induction rule: plusL.induct) auto

lemma plusL_class_sup:
  "w \<noteq> [] \<Longrightarrow> \<forall>c\<in>set w. P c \<Longrightarrow> w \<in> plusL {[c] | c. P c}"
proof (induction w)
  case Nil
  then show ?case by simp
next
  case (Cons a w)
  then have a: "[a] \<in> {[c] | c. P c}" by simp
  show ?case
  proof (cases "w = []")
    case True
    with a show ?thesis by (simp add: plusL.one)
  next
    case False
    with Cons have "w \<in> plusL {[c] | c. P c}" by simp
    with a have "[a] @ w \<in> plusL {[c] | c. P c}" by (rule plusL.more)
    then show ?thesis by simp
  qed
qed

lemma plusL_class: "plusL {[c] | c. P c} = {w. w \<noteq> [] \<and> (\<forall>c\<in>set w. P c)}"
  using plusL_class_sub plusL_class_sup by blast

lemma conc_single_left: "conc {s} B = {s @ v | v. v \<in> B}"
  by (auto simp: conc_def)

lemma conc_single_right: "conc A {s} = {u @ s | u. u \<in> A}"
  by (auto simp: conc_def)

lemma conc_opt_left: "conc (insert [] {t}) B = B \<union> {t @ v | v. v \<in> B}"
  by (auto simp: conc_def)

lemma lang_tagPattern:
  "lang tagPattern =
     {''<'' @ n @ ''>'' | n. n \<noteq> [] \<and> (\<forall>c\<in>set n. inClass wordOrDash c)}
     \<union> {''</'' @ n @ ''>'' | n. n \<noteq> [] \<and> (\<forall>c\<in>set n. inClass wordOrDash c)}"
  unfolding tagPattern_def lang.simps plusL_class conc_single_right conc_opt_left
    conc_single_left
  by auto

lemma tag_test:
  "(\<exists>u\<in>lang tagPattern. sublist u msg) \<longleftrightarrow>
     (\<exists>n. n \<noteq> [] \<and> (\<forall>c\<in>set n. inClass wordOrDash c)
          \<and> (sublist (''<'' @ n @ ''>'') msg \<or> sublist (''</'' @ n @ ''>'') msg))"
  unfolding lang_tagPattern by blast

text \<open>
  C8, as amended: a message is classified code-like exactly when it contains a code fence
  (three backquotes), "function", "class", "<div", one of the words const, let, var,
  import, def, public, private directly followed by a space, one of the characters
  ";", "{", "(", or a tag: "<", an optional "/", one or more characters out of letters,
  digits, "_" and "-", and ">". The words of the second group without the space after
  them do not make a message code-like.
\<close>

theorem codey_characterisation:
  "isCodey msg \<longleftrightarrow>
     sublist ''```'' msg \<or> sublist ''function'' msg \<or> sublist ''class'' msg
     \<or> sublist ''<div'' msg
     \<or> sublist ''const '' msg \<or> sublist ''let '' msg \<or> sublist ''var '' msg
     \<or> sublist ''import '' msg \<or> sublist ''def '' msg \<or> sublist ''public '' msg
     \<or> sublist ''private '' msg
     \<or> sublist '';'' msg \<or> sublist ''{'' msg \<or> sublist ''('' msg
     \<or> (\<exists>n. n \<noteq> [] \<and> (\<forall>c\<in>set n. inClass wordOrDash c)
            \<and> (sublist (''<'' @ n @ ''>'') msg \<or> sublist (''</'' @ n @ ''>'') msg))"
  unfolding isCodey_def regex_test_iff codeyPattern_def lang.simps bex_Un tag_test
  by simp

theorem codey_characterisation_witness:
  "isCodey ''def f'' \<and> sublist ''def '' ''def f''
   \<and> isCodey ''</a>'' \<and> \<not> isCodey ''undefined''"
  using codey_characterisation [of "''def f''"] codey_characterisation [of "''</a>''"]
    codey_characterisation [of "''undefined''"]
  by (simp add: codey_eval sublist_Cons_right)

text \<open>
  The claim as stated fails: "undefined" contains the keyword "def" and is not
  classified code-like, since the pattern asks for "def" followed by a space.
\<close>

theorem keyword_without_space_counterexample:
  "sublist ''def'' ''undefined'' \<and> \<not> isCodey ''undefined''"
  by (simp add: codey_eval sublist_Cons_right)

subsection \<open>The branches of the heuristic\<close>

text \<open>
  C2: with no active provider the heuristic returns the synthetic provider named
  "OpenRouter" with the model "meta-llama/llama-3.1-8b-instruct", whatever the message
  and the image flag are.
\<close>

theorem no_active_providers_fallback:
  assumes "activeProviders opts = []"
  shows "chooseProviderAndModel opts =
           \<lparr>provider = \<lparr>name = ''OpenRouter'', others = None\<rparr>,
            model = Some ''meta-llama/llama-3.1-8b-instruct''\<rparr>"
  using assms by (simp add: chooseProviderAndModel_def byName_Nil syntheticProvider_def Let_def)

theorem no_active_providers_fallback_witness:
  "activeProviders \<lparr>message = ''hello'', hasImages = False,
       activeProviders = ([] :: unit ProviderInfo list), preferred = None\<rparr> = []
   \<and> chooseProviderAndModel \<lparr>message = ''hello'', hasImages = False,
       activeProviders = ([] :: unit ProviderInfo list), preferred = None\<rparr> =
       \<lparr>provider = \<lparr>name = ''OpenRouter'', others = None\<rparr>,
        model = Some ''meta-llama/llama-3.1-8b-instruct''\<rparr>"
  using no_active_providers_fallback
    [of "\<lparr>message = ''hello'', hasImages = False,
          activeProviders = ([] :: unit ProviderInfo list), preferred = None\<rparr>"]
  by simp

text \<open>
  C4: when a provider named "LMStudio" (compared case-insensitively) is active, the
  message has at most 1200 characters and there are no images, the heuristic returns the
  first such provider of the list, with "qwen2.5-coder-7b-instruct" for a code-like
  message and "meta-llama-3.1-8b-instruct" otherwise, whatever other providers are active.
\<close>

theorem lmstudio_rule:
  assumes "\<exists>p\<in>set (activeProviders opts). named ''LMStudio'' p"
    and "length (message opts) \<le> 1200"
    and "\<not> hasImages opts"
  shows "\<exists>p\<in>set (activeProviders opts). named ''LMStudio'' p
           \<and> byName (activeProviders opts) ''LMStudio'' = Some p
           \<and> chooseProviderAndModel opts =
               \<lparr>provider = p,
                model = Some (if isCodey (message opts) then ''qwen2.5-coder-7b-instruct''
                              else ''meta-llama-3.1-8b-instruct'')\<rparr>"
proof -
  from assms(1) obtain q where q: "byName (activeProviders opts) ''LMStudio'' = Some q"
    "q \<in> set (activeProviders opts)" "named ''LMStudio'' q"
    by (rule byName_active)
  from q(1) assms(2,3) have "chooseProviderAndModel opts =
      \<lparr>provider = q,
       model = Some (if isCodey (message opts) then ''qwen2.5-coder-7b-instruct''
                     else ''meta-llama-3.1-8b-instruct'')\<rparr>"
    by (simp add: chooseProviderAndModel_def Let_def short_def)
  with q show ?thesis by blast
qed

theorem lmstudio_rule_witness:
  "(let lm = \<lparr>name = ''lmstudio'', others = Some ()\<rparr>;
        orr = \<lparr>name = ''OpenRouter'', others = Some ()\<rparr>;
        plain = \<lparr>message = ''hello'', hasImages = False, activeProviders = [orr, lm],
                 preferred = None\<rparr>;
        fenced = \<lparr>message = ''```x```'', hasImages = False, activeProviders = [lm],
                  preferred = None\<rparr>
    in (\<exists>p\<in>set (activeProviders plain). named ''LMStudio'' p)
       \<and> length (message plain) \<le> 1200 \<and> \<not> hasImages plain
       \<and> chooseProviderAndModel plain =
           \<lparr>provider = lm, model = Some ''meta-llama-3.1-8b-instruct''\<rparr>
       \<and> chooseProviderAndModel fenced =
           \<lparr>provider = lm, model = Some ''qwen2.5-coder-7b-instruct''\<rparr>)"
  using
    lmstudio_rule [of "\<lparr>message = ''hello'', hasImages = False,
      activeProviders = [\<lparr>name = ''OpenRouter'', others = Some ()\<rparr>,
                         \<lparr>name = ''lmstudio'', others = Some ()\<rparr>],
      preferred = None\<rparr>"]
    lmstudio_rule [of "\<lparr>message = ''```x```'', hasImages = False,
      activeProviders = [\<lparr>name = ''lmstudio'', others = Some ()\<rparr>],
      preferred = None\<rparr>"]
  by (simp add: Let_def lower_names codey_samples byName_def)

text \<open>
  C5: when a provider named "Ollama" is active, none named "LMStudio" is, the message has
  at most 1200 characters and there are no images, the heuristic returns the first
  Ollama provider with the alias "deepseek-coder:6.7b" for a code-like message and
  "llama3.1:8b" otherwise; the alias contains a colon and is neither of the two
  LMStudio identifiers.
\<close>

theorem ollama_rule:
  assumes "\<exists>p\<in>set (activeProviders opts). named ''Ollama'' p"
    and "\<forall>p\<in>set (activeProviders opts). \<not> named ''LMStudio'' p"
    and "length (message opts) \<le> 1200"
    and "\<not> hasImages opts"
  shows "\<exists>p\<in>set (activeProviders opts). \<exists>m. named ''Ollama'' p
           \<and> byName (activeProviders opts) ''Ollama'' = Some p
           \<and> chooseProviderAndModel opts = \<lparr>provider = p, model = Some m\<rparr>
           \<and> m = (if isCodey (message opts) then ''deepseek-coder:6.7b'' else ''llama3.1:8b'')
           \<and> CHR '':'' \<in> set m
           \<and> m \<noteq> ''qwen2.5-coder-7b-instruct'' \<and> m \<noteq> ''meta-llama-3.1-8b-instruct''"
proof -
  from assms(1) obtain q where q: "byName (activeProviders opts) ''Ollama'' = Some q"
    "q \<in> set (activeProviders opts)" "named ''Ollama'' q"
    by (rule byName_active)
  from assms(2) have lm: "byName (activeProviders opts) ''LMStudio'' = None"
    by (simp add: byName_None_iff)
  define m where "m = (if isCodey (message opts) then ''deepseek-coder:6.7b'' else ''llama3.1:8b'')"
  from q(1) lm assms(3,4) have "chooseProviderAndModel opts = \<lparr>provider = q, model = Some m\<rparr>"
    by (simp add: chooseProviderAndModel_def Let_def short_def m_def)
  moreover have "CHR '':'' \<in> set m" "m \<noteq> ''qwen2.5-coder-7b-instruct''"
    "m \<noteq> ''meta-llama-3.1-8b-instruct''"
    by (simp_all add: m_def)
  ultimately show ?thesis using q m_def by blast
qed

theorem ollama_rule_witness:
  "(let ol = \<lparr>name = ''OLLAMA'', others = Some ()\<rparr>;
        orr = \<lparr>name = ''OpenRouter'', others = Some ()\<rparr>;
        plain = \<lparr>message = ''hello'', hasImages = False, activeProviders = [orr, ol],
                 preferred = None\<rparr>
    in (\<exists>p\<in>set (activeProviders plain). named ''Ollama'' p)
       \<and> (\<forall>p\<in>set (activeProviders plain). \<not> named ''LMStudio'' p)
       \<and> length (message plain) \<le> 1200 \<and> \<not> hasImages plain
       \<and> chooseProviderAndModel plain = \<lparr>provider = ol, model = Some ''llama3.1:8b''\<rparr>)"
  using
    ollama_rule [of "\<lparr>message = ''hello'', hasImages = False,
      activeProviders = [\<lparr>name = ''OpenRouter'', others = Some ()\<rparr>,
                         \<lparr>name = ''OLLAMA'', others = Some ()\<rparr>],
      preferred = None\<rparr>"]
  by (simp add: Let_def lower_names codey_samples byName_def)

text \<open>
  C6: when a provider named "OpenRouter" is active and neither the LMStudio rule nor the
  Ollama rule applies, the heuristic returns the first OpenRouter provider, with
  "deepseek/deepseek-coder" for a code-like message of at most 1200 characters without
  images, "openai/gpt-4o-mini" when there are images or the message is longer than 1200
  characters, and "meta-llama/llama-3.1-8b-instruct" otherwise.
\<close>

theorem openrouter_rule:
  assumes "\<exists>p\<in>set (activeProviders opts). named ''OpenRouter'' p"
    and "\<not> ((\<exists>p\<in>set (activeProviders opts). named ''LMStudio'' p)
            \<and> length (message opts) \<le> 1200 \<and> \<not> hasImages opts)"
    and "\<not> ((\<exists>p\<in>set (activeProviders opts). named ''Ollama'' p)
            \<and> length (message opts) \<le> 1200 \<and> \<not> hasImages opts)"
  shows "\<exists>p\<in>set (activeProviders opts). named ''OpenRouter'' p
           \<and> byName (activeProviders opts) ''OpenRouter'' = Some p
           \<and> chooseProviderAndModel opts =
               \<lparr>provider = p,
                model = Some
                  (if isCodey (message opts) \<and> length (message opts) \<le> 1200 \<and> \<not> hasImages opts
                   then ''deepseek/deepseek-coder''
                   else if hasImages opts \<or> 1200 < length (message opts)
                   then ''openai/gpt-4o-mini''
                   else ''meta-llama/llama-3.1-8b-instruct'')\<rparr>"
proof -
  from assms(1) obtain q where q: "byName (activeProviders opts) ''OpenRouter'' = Some q"
    "q \<in> set (activeProviders opts)" "named ''OpenRouter'' q"
    by (rule byName_active)
  from assms(2) have lm: "\<not> (byName (activeProviders opts) ''LMStudio'' \<noteq> None
      \<and> short (message opts) \<and> \<not> hasImages opts)"
    by (simp add: byName_None_iff short_def)
  from assms(3) have ol: "\<not> (byName (activeProviders opts) ''Ollama'' \<noteq> None
      \<and> short (message opts) \<and> \<not> hasImages opts)"
    by (simp add: byName_None_iff short_def)
  have "chooseProviderAndModel opts =
      \<lparr>provider = q,
       model = Some
         (if isCodey (message opts) \<and> length (message opts) \<le> 1200 \<and> \<not> hasImages opts
          then ''deepseek/deepseek-coder''
          else if hasImages opts \<or> 1200 < length (message opts)
          then ''openai/gpt-4o-mini''
          else ''meta-llama/llama-3.1-8b-instruct'')\<rparr>"
    unfolding chooseProviderAndModel_def Let_def
    by (simp only: lm ol if_False q(1)) (simp add: short_def not_le)
  with q show ?thesis by blast
qed

theorem openrouter_rule_witness:
  "(let ol = \<lparr>name = ''Ollama'', others = Some ()\<rparr>;
        orr = \<lparr>name = ''openRouter'', others = Some ()\<rparr>;
        long = \<lparr>message = replicate 1201 CHR ''a'', hasImages = False,
                activeProviders = [ol, orr], preferred = None\<rparr>;
        pic = \<lparr>message = ''```x```'', hasImages = True,
               activeProviders = [orr], preferred = None\<rparr>
    in (\<exists>p\<in>set (activeProviders long). named ''OpenRouter'' p)
       \<and> \<not> ((\<exists>p\<in>set (activeProviders long). named ''LMStudio'' p)
              \<and> length (message long) \<le> 1200 \<and> \<not> hasImages long)
       \<and> \<not> ((\<exists>p\<in>set (activeProviders long). named ''Ollama'' p)
              \<and> length (message long) \<le> 1200 \<and> \<not> hasImages long)
       \<and> chooseProviderAndModel long = \<lparr>provider = orr, model = Some ''openai/gpt-4o-mini''\<rparr>
       \<and> chooseProviderAndModel pic = \<lparr>provider = orr, model = Some ''openai/gpt-4o-mini''\<rparr>)"
  using
    openrouter_rule [of "\<lparr>message = replicate 1201 CHR ''a'', hasImages = False,
      activeProviders = [\<lparr>name = ''Ollama'', others = Some ()\<rparr>,
                         \<lparr>name = ''openRouter'', others = Some ()\<rparr>],
      preferred = None\<rparr>"]
    openrouter_rule [of "\<lparr>message = ''```x```'', hasImages = True,
      activeProviders = [\<lparr>name = ''openRouter'', others = Some ()\<rparr>],
      preferred = None\<rparr>"]
  by (simp add: Let_def lower_names codey_samples byName_def)

text \<open>
  C7: when a provider named "OpenAI" is active, none named "OpenRouter" is, and neither
  the LMStudio rule nor the Ollama rule applies, the heuristic returns the first OpenAI
  provider with the model "gpt-4o-mini", on the images-or-long path and on the default
  path alike.
\<close>

theorem openai_rule:
  assumes "\<exists>p\<in>set (activeProviders opts). named ''OpenAI'' p"
    and "\<forall>p\<in>set (activeProviders opts). \<not> named ''OpenRouter'' p"
    and "\<not> ((\<exists>p\<in>set (activeProviders opts). named ''LMStudio'' p)
            \<and> length (message opts) \<le> 1200 \<and> \<not> hasImages opts)"
    and "\<not> ((\<exists>p\<in>set (activeProviders opts). named ''Ollama'' p)
            \<and> length (message opts) \<le> 1200 \<and> \<not> hasImages opts)"
  shows "\<exists>p\<in>set (activeProviders opts). named ''OpenAI'' p
           \<and> byName (activeProviders opts) ''OpenAI'' = Some p
           \<and> chooseProviderAndModel opts = \<lparr>provider = p, model = Some ''gpt-4o-mini''\<rparr>"
proof -
  from assms(1) obtain q where q: "byName (activeProviders opts) ''OpenAI'' = Some q"
    "q \<in> set (activeProviders opts)" "named ''OpenAI'' q"
    by (rule byName_active)
  from assms(2) have orr: "byName (activeProviders opts) ''OpenRouter'' = None"
    by (simp add: byName_None_iff)
  from assms(3) have lm: "\<not> (byName (activeProviders opts) ''LMStudio'' \<noteq> None
      \<and> short (message opts) \<and> \<not> hasImages opts)"
    by (simp add: byName_None_iff short_def)
  from assms(4) have ol: "\<not> (byName (activeProviders opts) ''Ollama'' \<noteq> None
      \<and> short (message opts) \<and> \<not> hasImages opts)"
    by (simp add: byName_None_iff short_def)
  have "chooseProviderAndModel opts = \<lparr>provider = q, model = Some ''gpt-4o-mini''\<rparr>"
    unfolding chooseProviderAndModel_def Let_def
    by (simp only: lm ol if_False orr q(1)) simp
  with q show ?thesis by blast
qed

theorem openai_rule_witness:
  "(let oa = \<lparr>name = ''openai'', others = Some ()\<rparr>;
        ol = \<lparr>name = ''Ollama'', others = Some ()\<rparr>;
        pic = \<lparr>message = ''hello'', hasImages = True, activeProviders = [ol, oa],
               preferred = None\<rparr>;
        plain = \<lparr>message = ''hello'', hasImages = False, activeProviders = [oa],
               preferred = None\<rparr>
    in (\<exists>p\<in>set (activeProviders pic). named ''OpenAI'' p)
       \<and> (\<forall>p\<in>set (activeProviders pic). \<not> named ''OpenRouter'' p)
       \<and> \<not> ((\<exists>p\<in>set (activeProviders pic). named ''LMStudio'' p)
              \<and> length (message pic) \<le> 1200 \<and> \<not> hasImages pic)
       \<and> \<not> ((\<exists>p\<in>set (activeProviders pic). named ''Ollama'' p)
              \<and> length (message pic) \<le> 1200 \<and> \<not> hasImages pic)
       \<and> chooseProviderAndModel pic = \<lparr>provider = oa, model = Some ''gpt-4o-mini''\<rparr>
       \<and> chooseProviderAndModel plain = \<lparr>provider = oa, model = Some ''gpt-4o-mini''\<rparr>)"
  using
    openai_rule [of "\<lparr>message = ''hello'', hasImages = True,
      activeProviders = [\<lparr>name = ''Ollama'', others = Some ()\<rparr>,
                         \<lparr>name = ''openai'', others = Some ()\<rparr>],
      preferred = None\<rparr>"]
    openai_rule [of "\<lparr>message = ''hello'', hasImages = False,
      activeProviders = [\<lparr>name = ''openai'', others = Some ()\<rparr>],
      preferred = None\<rparr>"]
  by (simp add: Let_def lower_names codey_samples byName_def)

subsection \<open>Results of the heuristic as a whole\<close>

lemma byName_in: "byName aps nm \<noteq> None \<Longrightarrow> the (byName aps nm) \<in> set aps"
  using byName_Some_D by fastforce

lemma byName_named: "byName aps nm \<noteq> None \<Longrightarrow> named nm (the (byName aps nm))"
  using byName_Some_D by fastforce

lemma choose_provider_in:
  "activeProviders opts \<noteq> [] \<Longrightarrow>
     provider (chooseProviderAndModel opts) \<in> set (activeProviders opts)"
  by (simp add: chooseProviderAndModel_def Let_def byName_in split: list.splits)

lemma choose_Nil:
  "activeProviders opts = [] \<Longrightarrow>
     chooseProviderAndModel opts =
       \<lparr>provider = syntheticProvider, model = Some ''meta-llama/llama-3.1-8b-instruct''\<rparr>"
  by (simp add: chooseProviderAndModel_def Let_def byName_Nil)

text \<open>
  C10: with at least one active provider, the provider the heuristic returns is an
  element of the list; a returned provider that is not in the list is the synthetic one,
  and the list is empty then.
\<close>

theorem provider_is_active:
  "(activeProviders opts \<noteq> [] \<longrightarrow>
      provider (chooseProviderAndModel opts) \<in> set (activeProviders opts))
   \<and> (provider (chooseProviderAndModel opts) \<notin> set (activeProviders opts) \<longrightarrow>
        activeProviders opts = []
        \<and> provider (chooseProviderAndModel opts) = syntheticProvider)"
proof (cases "activeProviders opts = []")
  case True
  then show ?thesis by (simp add: choose_Nil)
next
  case False
  then show ?thesis by (simp add: choose_provider_in)
qed

theorem provider_is_active_witness:
  "(let an = \<lparr>name = ''Anthropic'', others = Some ()\<rparr>;
        oa = \<lparr>name = ''openai'', others = Some ()\<rparr>;
        opts = \<lparr>message = ''hello'', hasImages = False, activeProviders = [an, oa],
                preferred = None\<rparr>
    in activeProviders opts \<noteq> []
       \<and> chooseProviderAndModel opts = \<lparr>provider = oa, model = Some ''gpt-4o-mini''\<rparr>
       \<and> provider (chooseProviderAndModel opts) \<in> set (activeProviders opts))"
  using provider_is_active [of "\<lparr>message = ''hello'', hasImages = False,
      activeProviders = [\<lparr>name = ''Anthropic'', others = Some ()\<rparr>,
                         \<lparr>name = ''openai'', others = Some ()\<rparr>],
      preferred = None\<rparr>"]
  by (simp add: Let_def chooseProviderAndModel_def lower_names codey_samples byName_def short_def)

text \<open>
  C1: for every argument the heuristic returns a result: a provider that is an active one
  or, with no active provider, the synthetic one, and a model that is absent or one of
  the fixed identifiers. The embedded functions are total, so there is no input on which
  the heuristic raises or fails to return.
\<close>

theorem heuristic_returns:
  "\<exists>p m. chooseProviderAndModel opts = \<lparr>provider = p, model = m\<rparr>
     \<and> (p \<in> set (activeProviders opts) \<or> (activeProviders opts = [] \<and> p = syntheticProvider))
     \<and> m \<in> {None, Some ''qwen2.5-coder-7b-instruct'', Some ''meta-llama-3.1-8b-instruct'',
              Some ''deepseek-coder:6.7b'', Some ''llama3.1:8b'', Some ''deepseek/deepseek-coder'',
              Some ''openai/gpt-4o-mini'', Some ''meta-llama/llama-3.1-8b-instruct'',
              Some ''gpt-4o-mini''}"
proof -
  let ?r = "chooseProviderAndModel opts"
  have r: "?r = \<lparr>provider = provider ?r, model = model ?r\<rparr>" by simp
  have p: "provider ?r \<in> set (activeProviders opts)
      \<or> (activeProviders opts = [] \<and> provider ?r = syntheticProvider)"
    using choose_Nil [of opts] choose_provider_in [of opts]
    by (cases "activeProviders opts = []") simp_all
  have m: "model ?r \<in> {None, Some ''qwen2.5-coder-7b-instruct'', Some ''meta-llama-3.1-8b-instruct'',
              Some ''deepseek-coder:6.7b'', Some ''llama3.1:8b'', Some ''deepseek/deepseek-coder'',
              Some ''openai/gpt-4o-mini'', Some ''meta-llama/llama-3.1-8b-instruct'',
              Some ''gpt-4o-mini''}"
    by (cases "activeProviders opts")
      (simp_all add: chooseProviderAndModel_def Let_def)
  from r p m show ?thesis by blast
qed

theorem heuristic_returns_witness:
  "chooseProviderAndModel \<lparr>message = ''hello'', hasImages = True,
      activeProviders = [\<lparr>name = ''Anthropic'', others = Some ()\<rparr>], preferred = None\<rparr>
    = \<lparr>provider = \<lparr>name = ''Anthropic'', others = Some ()\<rparr>, model = None\<rparr>"
  using heuristic_returns [of "\<lparr>message = ''hello'', hasImages = True,
      activeProviders = [\<lparr>name = ''Anthropic'', others = Some ()\<rparr>], preferred = None\<rparr>"]
  by (simp add: chooseProviderAndModel_def Let_def lower_names byName_def)

text \<open>
  C9: the lookup returns nothing exactly when no active provider bears the name
  (compared case-insensitively), and what it returns is an active provider bearing the
  name. A returned provider whose name is none of "LMStudio", "Ollama", "OpenRouter",
  "OpenAI" is the first active provider, returned with no model; and whenever none of the
  four names is active and the list is not empty, that is the result.
\<close>

theorem lookup_and_fallback:
  "(byName aps nm = None \<longleftrightarrow> (\<forall>p\<in>set aps. \<not> named nm p))
   \<and> (\<forall>p. byName aps nm = Some p \<longrightarrow> p \<in> set aps \<and> named nm p)
   \<and> (\<not> named ''LMStudio'' (provider (chooseProviderAndModel opts))
        \<and> \<not> named ''Ollama'' (provider (chooseProviderAndModel opts))
        \<and> \<not> named ''OpenRouter'' (provider (chooseProviderAndModel opts))
        \<and> \<not> named ''OpenAI'' (provider (chooseProviderAndModel opts))
      \<longrightarrow> (\<exists>first rest. activeProviders opts = first # rest
             \<and> chooseProviderAndModel opts = \<lparr>provider = first, model = None\<rparr>))
   \<and> ((\<forall>p\<in>set (activeProviders opts).
          \<not> named ''LMStudio'' p \<and> \<not> named ''Ollama'' p
          \<and> \<not> named ''OpenRouter'' p \<and> \<not> named ''OpenAI'' p)
      \<longrightarrow> (\<forall>first rest. activeProviders opts = first # rest
             \<longrightarrow> chooseProviderAndModel opts = \<lparr>provider = first, model = None\<rparr>))"
proof (intro conjI impI allI)
  show "byName aps nm = None \<longleftrightarrow> (\<forall>p\<in>set aps. \<not> named nm p)"
    by (rule byName_None_iff)
next
  fix p assume "byName aps nm = Some p"
  then show "p \<in> set aps" "named nm p" using byName_Some_D by blast+
next
  let ?r = "chooseProviderAndModel opts"
  assume other: "\<not> named ''LMStudio'' (provider ?r) \<and> \<not> named ''Ollama'' (provider ?r)
     \<and> \<not> named ''OpenRouter'' (provider ?r) \<and> \<not> named ''OpenAI'' (provider ?r)"
  show "\<exists>first rest. activeProviders opts = first # rest
      \<and> ?r = \<lparr>provider = first, model = None\<rparr>"
  proof (rule ccontr)
    assume no: "\<not> (\<exists>first rest. activeProviders opts = first # rest
      \<and> ?r = \<lparr>provider = first, model = None\<rparr>)"
    have "named ''LMStudio'' (provider ?r) \<or> named ''Ollama'' (provider ?r)
        \<or> named ''OpenRouter'' (provider ?r) \<or> named ''OpenAI'' (provider ?r)"
      using no
      by (cases "activeProviders opts")
        (simp_all add: chooseProviderAndModel_def Let_def byName_named syntheticProvider_def
          split: if_splits)
    with other show False by blast
  qed
next
  fix first rest
  assume none: "\<forall>p\<in>set (activeProviders opts).
          \<not> named ''LMStudio'' p \<and> \<not> named ''Ollama'' p
          \<and> \<not> named ''OpenRouter'' p \<and> \<not> named ''OpenAI'' p"
    and aps: "activeProviders opts = first # rest"
  from none have "byName (activeProviders opts) ''LMStudio'' = None"
    "byName (activeProviders opts) ''Ollama'' = None"
    "byName (activeProviders opts) ''OpenRouter'' = None"
    "byName (activeProviders opts) ''OpenAI'' = None"
    by (simp_all add: byName_None_iff)
  then show "chooseProviderAndModel opts = \<lparr>provider = first, model = None\<rparr>"
    by (simp add: chooseProviderAndModel_def Let_def) (simp add: aps)
qed

theorem lookup_and_fallback_witness:
  "(let an = \<lparr>name = ''Anthropic'', others = Some ()\<rparr>;
        ol = \<lparr>name = ''OLLAMA'', others = Some ()\<rparr>;
        opts = \<lparr>message = ''hello'', hasImages = False, activeProviders = [an],
                preferred = None\<rparr>
    in byName [an] ''Ollama'' = None
       \<and> byName [an, ol] ''Ollama'' = Some ol
       \<and> (\<forall>p\<in>set (activeProviders opts).
             \<not> named ''LMStudio'' p \<and> \<not> named ''Ollama'' p
             \<and> \<not> named ''OpenRouter'' p \<and> \<not> named ''OpenAI'' p)
       \<and> \<not> named ''LMStudio'' (provider (chooseProviderAndModel opts))
       \<and> \<not> named ''Ollama'' (provider (chooseProviderAndModel opts))
       \<and> \<not> named ''OpenRouter'' (provider (chooseProviderAndModel opts))
       \<and> \<not> named ''OpenAI'' (provider (chooseProviderAndModel opts))
       \<and> chooseProviderAndModel opts = \<lparr>provider = an, model = None\<rparr>)"
proof -
  let ?an = "\<lparr>name = ''Anthropic'', others = Some ()\<rparr>"
  let ?opts = "\<lparr>message = ''hello'', hasImages = False, activeProviders = [?an],
                preferred = None\<rparr>"
  have none: "\<forall>p\<in>set (activeProviders ?opts).
             \<not> named ''LMStudio'' p \<and> \<not> named ''Ollama'' p
             \<and> \<not> named ''OpenRouter'' p \<and> \<not> named ''OpenAI'' p"
    by (simp add: lower_names)
  have aps: "activeProviders ?opts = ?an # []" by simp
  from lookup_and_fallback [of "[?an]" "''Ollama''" ?opts] none aps
  have r: "chooseProviderAndModel ?opts = \<lparr>provider = ?an, model = None\<rparr>"
    by blast
  show ?thesis
    unfolding Let_def r by (simp add: lower_names byName_def)
qed

subsection \<open>The delegation attempt\<close>

text \<open>
  C3: when loading the delegation module fails, or the module has no callable export
  named resolveAutoProviderModel, or calling that export throws or its promise rejects,
  the call is fulfilled (no error reaches the caller) with the result of the local
  heuristic on the same argument.
\<close>

theorem delegation_failure_falls_back:
  assumes "imported = Rejected
     \<or> imported = Fulfilled Absent
     \<or> imported = Fulfilled NotCallable
     \<or> (\<exists>f. imported = Fulfilled (Callable f) \<and> (f opts = Throws \<or> f opts = Returns Rejected))"
  shows "resolveAutoProviderModel imported opts = Fulfilled (chooseProviderAndModel opts)"
  using assms by (auto simp: resolveAutoProviderModel_def)

theorem delegation_failure_falls_back_witness:
  "(let opts = \<lparr>message = ''hello'', hasImages = False,
                 activeProviders = ([] :: unit ProviderInfo list), preferred = None\<rparr>;
        local = Fulfilled \<lparr>provider = \<lparr>name = ''OpenRouter'', others = None\<rparr>,
                           model = Some ''meta-llama/llama-3.1-8b-instruct''\<rparr>
    in resolveAutoProviderModel Rejected opts = local
       \<and> resolveAutoProviderModel (Fulfilled Absent) opts = local
       \<and> resolveAutoProviderModel (Fulfilled NotCallable) opts = local
       \<and> resolveAutoProviderModel (Fulfilled (Callable (\<lambda>_. Throws))) opts = local
       \<and> resolveAutoProviderModel (Fulfilled (Callable (\<lambda>_. Returns Rejected))) opts = local)"
  using
    delegation_failure_falls_back [of Rejected "\<lparr>message = ''hello'', hasImages = False,
       activeProviders = ([] :: unit ProviderInfo list), preferred = None\<rparr>"]
    delegation_failure_falls_back [of "Fulfilled Absent" "\<lparr>message = ''hello'', hasImages = False,
       activeProviders = ([] :: unit ProviderInfo list), preferred = None\<rparr>"]
    delegation_failure_falls_back [of "Fulfilled NotCallable" "\<lparr>message = ''hello'',
       hasImages = False, activeProviders = ([] :: unit ProviderInfo list), preferred = None\<rparr>"]
    delegation_failure_falls_back [of "Fulfilled (Callable (\<lambda>_. Throws))" "\<lparr>message = ''hello'',
       hasImages = False, activeProviders = ([] :: unit ProviderInfo list), preferred = None\<rparr>"]
    delegation_failure_falls_back [of "Fulfilled (Callable (\<lambda>_. Returns Rejected))"
       "\<lparr>message = ''hello'', hasImages = False,
         activeProviders = ([] :: unit ProviderInfo list), preferred = None\<rparr>"]
  by (simp add: Let_def chooseProviderAndModel_def byName_Nil syntheticProvider_def)

end
